theory Spec2Isabelle
  imports Main "HOL-Library.Word" "HOL-Library.Signed_Division" "HOL-Library.Sublist"
    "HOL-Library.Log_Nat"
begin

section \<open>Machine numbers\<close>

text \<open>
  Go's \<open>int\<close>, \<open>int64\<close> and \<open>time.Duration\<close> are 64-bit two's complement
  integers (the client targets 64-bit platforms): \<open>64 word\<close>, read with \<open>sint\<close>.

  A \<open>float64\<close> is modelled by its exact value: \<open>Fin m e\<close> is the finite double of
  value \<open>m * 2 ^ e\<close>, \<open>NonFin\<close> is an infinity or a NaN.  Every arithmetic operation
  computes the exact result as a ratio of integers and rounds it to the nearest double,
  ties to even (53-bit significand, subnormals with unit \<open>2 ^ -1074\<close>, overflow to
  infinity); each operation is rounded on its own (no fused multiply-add).  The sign of
  a zero is not represented; it can only be observed by dividing by it, which gives
  \<open>NonFin\<close> here.
\<close>

type_synonym i64 = "64 word"

datatype f64 = Fin int int | NonFin

definition f64_val :: "f64 \<Rightarrow> rat option" where
  "f64_val x =
     (case x of
        NonFin \<Rightarrow> None
      | Fin m e \<Rightarrow>
          Some (if 0 \<le> e then of_int m * 2 ^ nat e else of_int m / 2 ^ nat (- e)))"

text \<open>The number of binary digits of a natural number.\<close>

fun bits :: "nat \<Rightarrow> nat" where
  "bits n = (if n = 0 then 0 else Suc (bits (n div 2)))"

declare bits.simps [simp del]

text \<open>
  \<open>round_ratio neg p q\<close> rounds the rational \<open>p / q\<close> (with \<open>0 \<le> p\<close>, \<open>0 < q\<close>),
  negated when \<open>neg\<close>, to a double, in steps: \<open>round_exp\<close> finds the binary
  exponent \<open>e\<close> of \<open>p / q\<close> from the estimate \<open>e0\<close> and the exponent
  \<open>k = max (e - 52) (- 1074)\<close> of the unit in the last place; \<open>round_unit\<close> divides
  by that unit; \<open>round_rem\<close> rounds the quotient \<open>n0\<close> with remainder \<open>r\<close> half to
  even; \<open>round_fin\<close> overflows to infinity from \<open>2 ^ 1024\<close> on.
\<close>

definition round_fin :: "bool \<Rightarrow> int \<Rightarrow> int \<Rightarrow> f64" where
  "round_fin neg k n =
     (if 1024 < int (bits (nat n)) + k then NonFin else Fin (if neg then - n else n) k)"

definition round_rem :: "bool \<Rightarrow> int \<Rightarrow> int \<Rightarrow> int \<Rightarrow> int \<Rightarrow> f64" where
  "round_rem neg k n0 r den =
     round_fin neg k
       (if 2 * r < den then n0 else if den < 2 * r then n0 + 1
        else if even n0 then n0 else n0 + 1)"

definition round_unit :: "bool \<Rightarrow> int \<Rightarrow> int \<Rightarrow> int \<Rightarrow> f64" where
  "round_unit neg p q k =
     (if 0 \<le> k
      then round_rem neg k (p div (q * 2 ^ nat k)) (p mod (q * 2 ^ nat k)) (q * 2 ^ nat k)
      else round_rem neg k ((p * 2 ^ nat (- k)) div q) ((p * 2 ^ nat (- k)) mod q) q)"

definition round_exp :: "bool \<Rightarrow> int \<Rightarrow> int \<Rightarrow> int \<Rightarrow> f64" where
  "round_exp neg p q e0 =
     round_unit neg p q
       (max ((if (if 0 \<le> e0 then q * 2 ^ nat e0 \<le> p else q \<le> p * 2 ^ nat (- e0))
              then e0 else e0 - 1) - 52) (- 1074))"

definition round_ratio :: "bool \<Rightarrow> int \<Rightarrow> int \<Rightarrow> f64" where
  "round_ratio neg p q =
     (if p = 0 then Fin 0 0
      else round_exp neg p q (int (bits (nat p)) - int (bits (nat q))))"

text \<open>The exact value \<open>m * 2 ^ e\<close> as a ratio, rounded.\<close>

definition round_scaled :: "int \<Rightarrow> int \<Rightarrow> int \<Rightarrow> int \<Rightarrow> f64" where
  "round_scaled m d e1 e2 =
     (if e2 \<le> e1
      then round_ratio ((m < 0) \<noteq> (d < 0)) (\<bar>m\<bar> * 2 ^ nat (e1 - e2)) \<bar>d\<bar>
      else round_ratio ((m < 0) \<noteq> (d < 0)) \<bar>m\<bar> (\<bar>d\<bar> * 2 ^ nat (e2 - e1)))"

definition f64_mul :: "f64 \<Rightarrow> f64 \<Rightarrow> f64" where
  "f64_mul x y =
     (case (x, y) of
        (Fin m1 e1, Fin m2 e2) \<Rightarrow> round_scaled (m1 * m2) 1 (e1 + e2) 0
      | _ \<Rightarrow> NonFin)"

definition f64_add :: "f64 \<Rightarrow> f64 \<Rightarrow> f64" where
  "f64_add x y =
     (case (x, y) of
        (Fin m1 e1, Fin m2 e2) \<Rightarrow>
          round_scaled (m1 * 2 ^ nat (e1 - min e1 e2) + m2 * 2 ^ nat (e2 - min e1 e2)) 1
            (min e1 e2) 0
      | _ \<Rightarrow> NonFin)"

definition f64_sub :: "f64 \<Rightarrow> f64 \<Rightarrow> f64" where
  "f64_sub x y =
     (case y of Fin m e \<Rightarrow> f64_add x (Fin (- m) e) | NonFin \<Rightarrow> NonFin)"

definition f64_div :: "f64 \<Rightarrow> f64 \<Rightarrow> f64" where
  "f64_div x y =
     (case (x, y) of
        (Fin m1 e1, Fin m2 e2) \<Rightarrow> if m2 = 0 then NonFin else round_scaled m1 m2 e1 e2
      | _ \<Rightarrow> NonFin)"

text \<open>
  A decimal constant \<open>p / q\<close> of the source, such as \<open>1.2 = 12 / 10\<close>, is the double
  nearest to it; \<open>float64(i)\<close> is the double nearest to the integer \<open>i\<close>.
\<close>

definition f64_const :: "int \<Rightarrow> int \<Rightarrow> f64" where
  "f64_const p q = round_scaled p q 0 0"

definition f64_of_int :: "int \<Rightarrow> f64" where
  "f64_of_int i = round_scaled i 1 0 0"

text \<open>
  Integer division of Go truncates towards zero; the divisors of the source are
  non-zero constants.
\<close>

definition i64_quo :: "i64 \<Rightarrow> i64 \<Rightarrow> i64" where
  "i64_quo a b = word_of_int (sint a sdiv sint b)"

text \<open>
  Truncation towards zero, as Go's conversion of a float to an integer type does;
  \<open>None\<close> when the float is not finite.
\<close>

definition f64_trunc :: "f64 \<Rightarrow> int option" where
  "f64_trunc x =
     (case x of
        NonFin \<Rightarrow> None
      | Fin m e \<Rightarrow>
          Some (if 0 \<le> e then m * 2 ^ nat e
                else if 0 \<le> m then m div 2 ^ nat (- e)
                else - ((- m) div 2 ^ nat (- e))))"

text \<open>
  \<open>int64(f)\<close>: the Go specification leaves the value implementation-dependent when
  \<open>f\<close> is not finite or its truncation does not fit; \<open>impl\<close> is that value.
\<close>

definition f64_to_i64 :: "(f64 \<Rightarrow> i64) \<Rightarrow> f64 \<Rightarrow> i64" where
  "f64_to_i64 impl x =
     (case f64_trunc x of
        None \<Rightarrow> impl x
      | Some t \<Rightarrow> if - (2 ^ 63) \<le> t \<and> t < 2 ^ 63 then word_of_int t else impl x)"

text \<open>
  On x86-64 the conversion instruction gives the smallest \<open>int64\<close> in those cases.
\<close>

definition cvt_indefinite :: "f64 \<Rightarrow> i64" where
  "cvt_indefinite x = - (2 ^ 63)"

section \<open>Configuration (config.go)\<close>

record ExponentialBackoffConfig =
  Enabled :: bool
  Factor :: f64
  MaxEmptyPolls :: i64

record PollConfig =
  Limit :: i64
  Interval :: i64
  MaxInterval :: i64
  MinInterval :: i64
  MaxJobs :: i64
  Adaptive :: bool
  RemainingJobsThreshold :: i64
  ExponentialBackoff :: ExponentialBackoffConfig

text \<open>\<open>time.Millisecond\<close> is \<open>1000000\<close> nanoseconds; the product wraps.\<close>

definition Millisecond :: i64 where
  "Millisecond = 1000000"

definition GetPollInterval :: "PollConfig \<Rightarrow> i64" where
  "GetPollInterval c = Interval c * Millisecond"

definition GetMaxPollInterval :: "PollConfig \<Rightarrow> i64" where
  "GetMaxPollInterval c = MaxInterval c * Millisecond"

definition GetMinPollInterval :: "PollConfig \<Rightarrow> i64" where
  "GetMinPollInterval c = MinInterval c * Millisecond"

text \<open>The \<open>Poll\<close> section of \<open>DefaultConfig\<close>.\<close>

definition DefaultPollConfig :: PollConfig where
  "DefaultPollConfig =
     \<lparr> Limit = 10, Interval = 300000, MaxInterval = 1800000, MinInterval = 300000,
       MaxJobs = 50, Adaptive = True, RemainingJobsThreshold = 3,
       ExponentialBackoff =
         \<lparr> Enabled = True, Factor = f64_const 15 10, MaxEmptyPolls = 3 \<rparr> \<rparr>"

section \<open>Polling scheduler (polling.go)\<close>

record PollingOptimizer =
  config :: PollConfig
  consecutiveEmptyPolls :: i64
  currentInterval :: i64
  totalPolls :: i64
  successfulPolls :: i64

definition NewPollingOptimizer :: "PollConfig \<Rightarrow> PollingOptimizer" where
  "NewPollingOptimizer cfg =
     \<lparr> config = cfg, consecutiveEmptyPolls = 0, currentInterval = GetPollInterval cfg,
       totalPolls = 0, successfulPolls = 0 \<rparr>"

text \<open>
  A directory as \<open>os.ReadDir\<close> returns it: \<open>None\<close> when reading fails, else the
  entries with their names and whether each is a directory.
\<close>

type_synonym dir_listing = "(string \<times> bool) list option"

definition HasSuffix :: "string \<Rightarrow> string \<Rightarrow> bool" where
  "HasSuffix s suf = suffix suf s"

definition countJobsInFolder :: "dir_listing \<Rightarrow> i64 option" where
  "countJobsInFolder d =
     (case d of
        None \<Rightarrow> None
      | Some entries \<Rightarrow>
          Some (word_of_nat
            (length (filter (\<lambda>(name, isDir). \<not> isDir \<and> HasSuffix name ''.job'') entries))))"

definition calculateAdaptiveInterval ::
  "(f64 \<Rightarrow> i64) \<Rightarrow> PollingOptimizer \<Rightarrow> bool \<Rightarrow> i64 \<Rightarrow> i64" where
  "calculateAdaptiveInterval impl po hasJobs remaining =
     (if hasJobs \<and> sint remaining \<le> sint (RemainingJobsThreshold (config po))
      then GetMinPollInterval (config po)
      else if hasJobs then
        (let half = i64_quo (currentInterval po) 2
         in if sint half < sint (GetMinPollInterval (config po))
            then GetMinPollInterval (config po) else half)
      else
        (let more = f64_to_i64 impl
               (f64_mul (f64_of_int (sint (currentInterval po))) (f64_const 12 10))
         in if sint (GetMaxPollInterval (config po)) < sint more
            then GetMaxPollInterval (config po) else more))"

text \<open>
  \<open>CalculateOptimalInterval\<close> returns the interval and the optimizer, whose
  \<open>currentInterval\<close> the adaptive branch stores.  The \<open>downloadsFolder\<close> argument of
  the source is not used by it; \<open>todo\<close> is the listing of the to-do folder that
  \<open>countJobsInNewFolder\<close> reads.
\<close>

definition CalculateOptimalInterval ::
  "(f64 \<Rightarrow> i64) \<Rightarrow> PollingOptimizer \<Rightarrow> bool \<Rightarrow> i64 \<Rightarrow> dir_listing
     \<Rightarrow> i64 \<times> PollingOptimizer" where
  "CalculateOptimalInterval impl po hasJobs remaining todo =
     (let cfg = config po in
      if (case countJobsInFolder todo of
            None \<Rightarrow> False
          | Some jobCount \<Rightarrow> sint (RemainingJobsThreshold cfg) < sint jobCount)
      then (0, po)
      else if hasJobs \<and> sint remaining \<le> sint (RemainingJobsThreshold cfg)
      then (GetMinPollInterval cfg, po)
      else if 3 \<le> sint (consecutiveEmptyPolls po)
      then (GetMaxPollInterval cfg, po)
      else
        (let interval0 = (if Adaptive cfg
                          then calculateAdaptiveInterval impl po hasJobs remaining
                          else currentInterval po);
             interval1 = (if sint interval0 < sint (GetMinPollInterval cfg)
                          then GetMinPollInterval cfg else interval0);
             interval2 = (if sint (GetMaxPollInterval cfg) < sint interval1
                          then GetMaxPollInterval cfg else interval1)
         in (interval2, po\<lparr>currentInterval := interval2\<rparr>)))"

definition UpdateMetrics :: "PollingOptimizer \<Rightarrow> i64 \<Rightarrow> PollingOptimizer" where
  "UpdateMetrics po jobCount =
     (if 0 < sint jobCount
      then po\<lparr>totalPolls := totalPolls po + 1,
              successfulPolls := successfulPolls po + 1,
              consecutiveEmptyPolls := 0\<rparr>
      else po\<lparr>totalPolls := totalPolls po + 1,
              consecutiveEmptyPolls := consecutiveEmptyPolls po + 1\<rparr>)"

text \<open>
  The empty-poll step as the specification words it: the current interval times the
  configured \<open>exponentialFactor\<close>, clamped to the maximum interval.
\<close>

definition spec_empty_poll_interval :: "(f64 \<Rightarrow> i64) \<Rightarrow> PollingOptimizer \<Rightarrow> i64" where
  "spec_empty_poll_interval impl po =
     (let more = f64_to_i64 impl
            (f64_mul (f64_of_int (sint (currentInterval po)))
               (Factor (ExponentialBackoff (config po))))
      in if sint (GetMaxPollInterval (config po)) < sint more
         then GetMaxPollInterval (config po) else more)"

text \<open>What the source computes on an empty poll: the current interval times \<open>1.2\<close>.\<close>

definition empty_poll_more :: "(f64 \<Rightarrow> i64) \<Rightarrow> PollingOptimizer \<Rightarrow> i64" where
  "empty_poll_more impl po =
     f64_to_i64 impl (f64_mul (f64_of_int (sint (currentInterval po))) (f64_const 12 10))"

section \<open>Go strings\<close>

text \<open>
  A Go string is a sequence of bytes: \<open>string\<close>.  \<open>str_index\<close> is
  \<open>strings.Index\<close> (\<open>None\<close> for \<open>-1\<close>), \<open>str_last_index\<close> is
  \<open>strings.LastIndex\<close>, \<open>Split\<close> is \<open>strings.Split\<close> for the one-byte separators
  the source uses, \<open>Join\<close> is \<open>strings.Join\<close>.
\<close>

fun str_index :: "string \<Rightarrow> string \<Rightarrow> nat option" where
  "str_index [] p = (if p = [] then Some 0 else None)"
| "str_index (c # s) p =
     (if prefix p (c # s) then Some 0 else map_option Suc (str_index s p))"

fun str_last_index :: "string \<Rightarrow> string \<Rightarrow> nat option" where
  "str_last_index [] p = (if p = [] then Some 0 else None)"
| "str_last_index (c # s) p =
     (case str_last_index s p of
        Some i \<Rightarrow> Some (Suc i)
      | None \<Rightarrow> if prefix p (c # s) then Some 0 else None)"

definition Contains :: "string \<Rightarrow> string \<Rightarrow> bool" where
  "Contains s p = (str_index s p \<noteq> None)"

fun Split :: "string \<Rightarrow> char \<Rightarrow> string list" where
  "Split [] sep = [[]]"
| "Split (c # s) sep =
     (if c = sep then [] # Split s sep
      else (case Split s sep of [] \<Rightarrow> [[c]] | p # ps \<Rightarrow> (c # p) # ps))"

fun Join :: "string list \<Rightarrow> string \<Rightarrow> string" where
  "Join [] sep = []"
| "Join [x] sep = x"
| "Join (x # y # ys) sep = x @ sep @ Join (y # ys) sep"

definition HasPrefix :: "string \<Rightarrow> string \<Rightarrow> bool" where
  "HasPrefix s p = prefix p s"

definition TrimSuffix :: "string \<Rightarrow> string \<Rightarrow> string" where
  "TrimSuffix s suf = (if suffix suf s then take (length s - length suf) s else s)"

text \<open>
  \<open>strings.TrimSpace\<close> removes leading and trailing Unicode white space.
  \<open>space_runes\<close> lists the UTF-8 encodings of the code points with the White_Space
  property: the six ASCII ones, U+0085, U+00A0, U+1680, U+2000 to U+200A, U+2028,
  U+2029, U+202F, U+205F and U+3000.
\<close>

definition space_runes :: "string list" where
  "space_runes =
     [[CHR 0x09], [CHR 0x0A], [CHR 0x0B], [CHR 0x0C], [CHR 0x0D], [CHR 0x20],
      [CHR 0xC2, CHR 0x85], [CHR 0xC2, CHR 0xA0], [CHR 0xE1, CHR 0x9A, CHR 0x80],
      [CHR 0xE2, CHR 0x80, CHR 0x80], [CHR 0xE2, CHR 0x80, CHR 0x81],
      [CHR 0xE2, CHR 0x80, CHR 0x82], [CHR 0xE2, CHR 0x80, CHR 0x83],
      [CHR 0xE2, CHR 0x80, CHR 0x84], [CHR 0xE2, CHR 0x80, CHR 0x85],
      [CHR 0xE2, CHR 0x80, CHR 0x86], [CHR 0xE2, CHR 0x80, CHR 0x87],
      [CHR 0xE2, CHR 0x80, CHR 0x88], [CHR 0xE2, CHR 0x80, CHR 0x89],
      [CHR 0xE2, CHR 0x80, CHR 0x8A], [CHR 0xE2, CHR 0x80, CHR 0xA8],
      [CHR 0xE2, CHR 0x80, CHR 0xA9], [CHR 0xE2, CHR 0x80, CHR 0xAF],
      [CHR 0xE2, CHR 0x81, CHR 0x9F], [CHR 0xE3, CHR 0x80, CHR 0x80]]"

fun strip_runes :: "string list \<Rightarrow> string \<Rightarrow> string" where
  "strip_runes rs [] = []"
| "strip_runes rs (c # s) =
     (case find (\<lambda>r. r \<noteq> [] \<and> prefix r (c # s)) rs of
        None \<Rightarrow> c # s
      | Some r \<Rightarrow> strip_runes rs (drop (length r - 1) s))"

definition TrimSpace :: "string \<Rightarrow> string" where
  "TrimSpace s = rev (strip_runes (map rev space_runes) (rev (strip_runes space_runes s)))"

text \<open>
  \<open>strconv.Atoi\<close>: an optional sign and at least one decimal digit, the value within
  the range of \<open>int\<close>; \<open>None\<close> is the error.
\<close>

definition is_digit :: "char \<Rightarrow> bool" where
  "is_digit c = (48 \<le> (of_char c :: nat) \<and> (of_char c :: nat) \<le> 57)"

definition digit_val :: "char \<Rightarrow> int" where
  "digit_val c = int (of_char c) - 48"

definition digits_val :: "string \<Rightarrow> int" where
  "digits_val s = foldl (\<lambda>a c. 10 * a + digit_val c) 0 s"

definition atoi_digits :: "bool \<Rightarrow> string \<Rightarrow> i64 option" where
  "atoi_digits neg ds =
     (if ds = [] \<or> \<not> list_all is_digit ds then None
      else if neg then
        (if - digits_val ds < - (2 ^ 63) then None else Some (word_of_int (- digits_val ds)))
      else
        (if 2 ^ 63 \<le> digits_val ds then None else Some (word_of_int (digits_val ds))))"

fun Atoi :: "string \<Rightarrow> i64 option" where
  "Atoi [] = None"
| "Atoi (c # s) =
     (if c = CHR ''-'' then atoi_digits True s
      else if c = CHR ''+'' then atoi_digits False s
      else atoi_digits False (c # s))"

text \<open>
  \<open>strings.ToLower\<close>, as far as a comparison of its result with an ASCII string can
  tell: ASCII capitals are lowered, and so are the two code points outside ASCII whose
  lower case is an ASCII letter, U+212A (Kelvin sign, to k) and U+0130 (to i); every
  other byte outside ASCII is left as it is (Go maps it to bytes outside ASCII too).
\<close>

definition lower_byte :: "char \<Rightarrow> char" where
  "lower_byte c =
     (if 65 \<le> (of_char c :: nat) \<and> (of_char c :: nat) \<le> 90
      then char_of (of_char c + (32 :: nat)) else c)"

fun ToLower :: "string \<Rightarrow> string" where
  "ToLower [] = []"
| "ToLower (c # s) =
     (if prefix [CHR 0xE2, CHR 0x84, CHR 0xAA] (c # s)
      then CHR ''k'' # ToLower (drop 2 s)
      else if prefix [CHR 0xC4, CHR 0xB0] (c # s)
      then CHR ''i'' # ToLower (drop 1 s)
      else lower_byte c # ToLower s)"

section \<open>The parameter-optimization watcher (csv_uploader.go, downloader.go)\<close>

text \<open>
  \<open>filepath.Ext\<close>: the suffix from the last dot of the last path element.  The path
  separators are those of Windows, the platform the folder layout of \<open>config.go\<close> names.
\<close>

definition is_path_separator :: "char \<Rightarrow> bool" where
  "is_path_separator c = (c = CHR ''/'' \<or> c = CHR 0x5C)"

fun Ext_rev :: "string \<Rightarrow> string \<Rightarrow> string" where
  "Ext_rev [] acc = []"
| "Ext_rev (c # s) acc =
     (if is_path_separator c then []
      else if c = CHR ''.'' then c # acc
      else Ext_rev s (c # acc))"

definition Ext :: "string \<Rightarrow> string" where
  "Ext path = Ext_rev (rev path) []"

datatype opt_error = MetadataError | UploadError

definition extractMetadata :: "string \<Rightarrow> opt_error + (string \<times> string \<times> string)" where
  "extractMetadata fileName =
     (let parts = Split (TrimSuffix fileName (Ext fileName)) CHR ''_''
      in if length parts < 3 then Inl MetadataError
         else Inr (parts ! 0,
                   (if HasPrefix (parts ! 1) ''@'' then parts ! 1 else ''@'' @ parts ! 1),
                   parts ! 2))"

text \<open>
  The three folders of optimization artifacts, and the outside world of one watcher
  tick: whether the upload of a file to the optimization-result endpoint succeeds and
  whether \<open>os.Rename\<close> of a file succeeds.
\<close>

record opt_folders =
  opt_in :: "(string \<times> bool) list"
  opt_done :: "string list"
  opt_error :: "string list"

record opt_world =
  readdir_ok :: bool
  upload_ok :: "string \<Rightarrow> bool"
  rename_ok :: "string \<Rightarrow> bool"

definition GetOptFiles :: "opt_world \<Rightarrow> opt_folders \<Rightarrow> string list option" where
  "GetOptFiles w fs =
     (if readdir_ok w
      then Some (map fst (filter (\<lambda>(name, isDir). \<not> isDir \<and> Ext name = ''.opt'') (opt_in fs)))
      else None)"

text \<open>
  \<open>uploadOptFile\<close> fails when the file name has fewer than three parts or the upload
  fails; what follows a successful upload (the upload event, the walk-forward check,
  the delayed summary scan) neither fails it nor touches the three folders.
\<close>

definition uploadOptFile :: "opt_world \<Rightarrow> string \<Rightarrow> opt_error option" where
  "uploadOptFile w fileName =
     (case extractMetadata fileName of
        Inl e \<Rightarrow> Some e
      | Inr m \<Rightarrow> if upload_ok w fileName then None else Some UploadError)"

definition MoveOptFile :: "opt_world \<Rightarrow> opt_folders \<Rightarrow> string \<Rightarrow> opt_folders option" where
  "MoveOptFile w fs fileName =
     (if rename_ok w fileName \<and> fileName \<in> fst ` set (opt_in fs)
      then Some (fs\<lparr> opt_in := filter (\<lambda>(name, isDir). name \<noteq> fileName) (opt_in fs),
                     opt_done := fileName # removeAll fileName (opt_done fs) \<rparr>)
      else None)"

definition processOptFile :: "opt_world \<Rightarrow> opt_folders \<Rightarrow> string \<Rightarrow> opt_folders" where
  "processOptFile w fs fileName =
     (case uploadOptFile w fileName of
        Some e \<Rightarrow> fs
      | None \<Rightarrow> (case MoveOptFile w fs fileName of None \<Rightarrow> fs | Some fs' \<Rightarrow> fs'))"

definition processOptFiles :: "opt_world \<Rightarrow> opt_folders \<Rightarrow> opt_folders" where
  "processOptFiles w fs =
     (case GetOptFiles w fs of
        None \<Rightarrow> fs
      | Some files \<Rightarrow> foldl (processOptFile w) fs files)"

section \<open>The walk-forward check of an uploaded result (csv_uploader.go)\<close>

record OPTResult =
  Run :: i64
  ParametersJSON :: string
  ISStartDate :: string
  ISEndDate :: string
  OSStartDate :: string
  OSEndDate :: string

text \<open>
  \<open>parseCSVLineWithJSON\<close>: the line is split on commas, and a part that opens a brace
  without closing it takes the following parts until one closes it (\<open>merge_json\<close>);
  a part with an equals sign and no brace takes the following parts of that kind
  (\<open>merge_kv\<close>).
\<close>

fun merge_json :: "string \<Rightarrow> string list \<Rightarrow> string \<times> string list" where
  "merge_json cur [] = (cur, [])"
| "merge_json cur (p # ps) =
     (if CHR ''}'' \<in> set cur then (cur, p # ps) else merge_json (cur @ '','' @ p) ps)"

fun merge_kv :: "string \<Rightarrow> string list \<Rightarrow> string \<times> string list" where
  "merge_kv cur [] = (cur, [])"
| "merge_kv cur (p # ps) =
     (if CHR ''='' \<in> set p \<and> CHR ''{'' \<notin> set p then merge_kv (cur @ '','' @ p) ps
      else (cur, p # ps))"

lemma length_merge_json: "length (snd (merge_json cur ps)) \<le> length ps"
  by (induction cur ps rule: merge_json.induct) (auto intro: le_SucI)

lemma length_merge_kv: "length (snd (merge_kv cur ps)) \<le> length ps"
  by (induction cur ps rule: merge_kv.induct) (auto intro: le_SucI)

function merge_parts :: "string list \<Rightarrow> string list" where
  "merge_parts [] = []"
| "merge_parts (p # ps) =
     (if CHR ''{'' \<in> set p \<and> CHR ''}'' \<notin> set p
      then TrimSpace (fst (merge_json p ps)) # merge_parts (snd (merge_json p ps))
      else if CHR ''='' \<in> set p \<and> CHR ''{'' \<notin> set p
      then TrimSpace (fst (merge_kv p ps)) # merge_parts (snd (merge_kv p ps))
      else TrimSpace p # merge_parts ps)"
  by pat_completeness auto
termination
  by (relation "measure length")
     (auto simp: length_merge_json length_merge_kv le_imp_less_Suc)

definition parseCSVLineWithJSON :: "string \<Rightarrow> string list" where
  "parseCSVLineWithJSON line = merge_parts (Split line CHR '','')"

definition parseCSVWithJSONFields :: "string \<Rightarrow> string list list" where
  "parseCSVWithJSONFields csvContent =
     map parseCSVLineWithJSON
       (filter (\<lambda>line. TrimSpace line \<noteq> []) (Split csvContent CHR 0x0A))"

text \<open>
  The index of the last column of the header whose trimmed, lowered name is one of
  \<open>names\<close> (the header loop of \<open>parseCSVContent\<close> overwrites the index at every
  match).
\<close>

definition column_index :: "string list \<Rightarrow> string list \<Rightarrow> nat option" where
  "column_index header names =
     (case filter (\<lambda>i. ToLower (TrimSpace (header ! i)) \<in> set names)
             (rev [0 ..< length header]) of
        [] \<Rightarrow> None
      | i # _ \<Rightarrow> Some i)"

definition date_field :: "string list \<Rightarrow> nat option \<Rightarrow> string" where
  "date_field record ix =
     (case ix of
        None \<Rightarrow> []
      | Some i \<Rightarrow> if i < length record then TrimSpace (record ! i) else [])"

definition parseRow ::
  "nat \<Rightarrow> nat \<Rightarrow> nat option \<Rightarrow> nat option \<Rightarrow> nat option \<Rightarrow> nat option
     \<Rightarrow> string list \<Rightarrow> OPTResult option" where
  "parseRow runIndex parametersJSONIndex isStart isEnd osStart osEnd record =
     (if length record \<le> runIndex \<or> length record \<le> parametersJSONIndex then None
      else case Atoi (TrimSpace (record ! runIndex)) of
        None \<Rightarrow> None
      | Some run \<Rightarrow>
          if TrimSpace (record ! parametersJSONIndex) = [] then None
          else Some \<lparr> Run = run,
                      ParametersJSON = TrimSpace (record ! parametersJSONIndex),
                      ISStartDate = date_field record isStart,
                      ISEndDate = date_field record isEnd,
                      OSStartDate = date_field record osStart,
                      OSEndDate = date_field record osEnd \<rparr>)"

text \<open>
  \<open>parseCSVContent\<close> returns the rows and whether the table is walk-forward (its
  error result is always nil, \<open>parseCSVLineWithJSON\<close> never failing).
\<close>

definition parseCSVRecords :: "string list list \<Rightarrow> OPTResult list \<times> bool" where
  "parseCSVRecords records =
     (if length records < 2 then ([], False)
      else case (column_index (hd records) [''run'', ''run_number''],
                 column_index (hd records) [''parameters_json'', ''parameters json'']) of
        (Some runIndex, Some parametersJSONIndex) \<Rightarrow>
          (let optResults = List.map_filter
                 (parseRow runIndex parametersJSONIndex
                    (column_index (hd records) [''is_start_date''])
                    (column_index (hd records) [''is_end_date''])
                    (column_index (hd records) [''os_start_date''])
                    (column_index (hd records) [''os_end_date'']))
                 (tl records)
           in if optResults = [] then ([], False) else (optResults, True))
      | _ \<Rightarrow> ([], False))"

definition parseCSVContent :: "string \<Rightarrow> string \<Rightarrow> OPTResult list \<times> bool" where
  "parseCSVContent csvContent jobTaskType =
     (if jobTaskType \<noteq> ''WFO'' \<and> jobTaskType \<noteq> ''WFM'' then ([], False)
      else parseCSVRecords (parseCSVWithJSONFields csvContent))"

text \<open>
  The decision of \<open>checkAndTriggerCombinedWFO\<close>.  \<open>job\<close> is the task type of the
  cloud job record, \<open>None\<close> when \<open>GetJobByID\<close> fails: the source then goes on with
  the task type \<open>UNKNOWN\<close>.  \<open>content\<close> is the decompressed table of the result
  file, \<open>None\<close> when the file is missing or is not a zlib stream.
\<close>

datatype wfo_decision = CheckFailed | NotWalkForward | SecondPass "OPTResult list"

definition checkAndTriggerCombinedWFO :: "string option \<Rightarrow> string option \<Rightarrow> wfo_decision" where
  "checkAndTriggerCombinedWFO job content =
     (case content of
        None \<Rightarrow> CheckFailed
      | Some csvContent \<Rightarrow>
          (case parseCSVContent csvContent (case job of None \<Rightarrow> ''UNKNOWN'' | Some t \<Rightarrow> t) of
             (optResults, isWFO) \<Rightarrow>
               if isWFO then SecondPass optResults else NotWalkForward))"

text \<open>A result table with one row, for the examples below.\<close>

definition sample_opt_table :: string where
  "sample_opt_table =
     ''run,parameters_json,is_start_date'' @ [CHR 0x0A] @
     '' 1 ,{'' @ [CHR 0x22] @ ''a'' @ [CHR 0x22] @ '':10,'' @ [CHR 0x22] @ ''b'' @ [CHR 0x22]
       @ '':20},2007-01-01'' @ [CHR 0x0A]"

section \<open>Evaluating the float model\<close>

lemma bits_0 [simp]: "bits 0 = 0"
  by (simp add: bits.simps)

lemma bits_1 [simp]: "bits 1 = 1" "bits (Suc 0) = 1"
  by (subst bits.simps, simp)+

lemma bits_One [simp]: "bits (numeral Num.One) = 1"
  by simp

lemma bits_Bit0 [simp]: "bits (numeral (Num.Bit0 k)) = Suc (bits (numeral k))"
  by (subst bits.simps) (simp add: numeral_Bit0_div_2)

lemma bits_Bit1 [simp]: "bits (numeral (Num.Bit1 k)) = Suc (bits (numeral k))"
  by (subst bits.simps) (simp add: numeral_Bit1_div_2)

lemmas f64_eval =
  f64_const_def f64_mul_def f64_add_def f64_sub_def f64_div_def f64_of_int_def
  round_scaled_def round_ratio_def round_exp_def round_unit_def round_rem_def
  round_fin_def f64_trunc_def f64_to_i64_def

lemmas poll_eval =
  NewPollingOptimizer_def DefaultPollConfig_def GetPollInterval_def
  GetMinPollInterval_def GetMaxPollInterval_def Millisecond_def

lemma default_more: "empty_poll_more impl (NewPollingOptimizer DefaultPollConfig) = 360000000000"
  by (simp add: empty_poll_more_def poll_eval f64_eval)

lemma default_spec_more:
  "spec_empty_poll_interval impl (NewPollingOptimizer DefaultPollConfig) = 450000000000"
  by (simp add: spec_empty_poll_interval_def poll_eval f64_eval)

lemma default_count: "countJobsInFolder (Some [(''a.job'', False)]) = Some 1"
  by (simp add: countJobsInFolder_def HasSuffix_def suffix_def)

section \<open>Properties of the polling scheduler\<close>

text \<open>
  C10. The interval computation is bounded: whatever the inputs, the folder state and
  the optimizer's state, when the minimum interval is at most the maximum interval
  the result is the suspend sentinel 0 or lies between the two.
\<close>

theorem CalculateOptimalInterval_bounded:
  assumes "sint (GetMinPollInterval (config po)) \<le> sint (GetMaxPollInterval (config po))"
  shows "fst (CalculateOptimalInterval impl po hasJobs remaining todo) = 0
       \<or> (sint (GetMinPollInterval (config po))
             \<le> sint (fst (CalculateOptimalInterval impl po hasJobs remaining todo))
          \<and> sint (fst (CalculateOptimalInterval impl po hasJobs remaining todo))
             \<le> sint (GetMaxPollInterval (config po)))"
  using assms by (auto simp: CalculateOptimalInterval_def Let_def)

theorem CalculateOptimalInterval_bounded_witness:
  "sint (GetMinPollInterval (config (NewPollingOptimizer DefaultPollConfig)))
     \<le> sint (GetMaxPollInterval (config (NewPollingOptimizer DefaultPollConfig)))
   \<and> sint (GetMinPollInterval (config (NewPollingOptimizer DefaultPollConfig)))
        \<le> sint (fst (CalculateOptimalInterval cvt_indefinite
               (NewPollingOptimizer DefaultPollConfig) False 0 (Some [])))
   \<and> sint (fst (CalculateOptimalInterval cvt_indefinite
               (NewPollingOptimizer DefaultPollConfig) False 0 (Some [])))
        \<le> sint (GetMaxPollInterval (config (NewPollingOptimizer DefaultPollConfig)))"
proof -
  let ?po = "NewPollingOptimizer DefaultPollConfig"
  have h: "sint (GetMinPollInterval (config ?po)) \<le> sint (GetMaxPollInterval (config ?po))"
    by (simp add: poll_eval)
  have n: "fst (CalculateOptimalInterval cvt_indefinite ?po False 0 (Some [])) \<noteq> 0"
    by (simp add: CalculateOptimalInterval_def calculateAdaptiveInterval_def
          countJobsInFolder_def poll_eval f64_eval)
  from CalculateOptimalInterval_bounded [OF h, of cvt_indefinite False 0 "Some []"] h n
  show ?thesis by blast
qed

text \<open>
  C7 as stated fails: with the default configuration (factor 1.5) and a current
  interval of five minutes, an empty poll in the adaptive regime gives six minutes
  (the factor 1.2), not the seven and a half minutes of the configured factor.
\<close>

theorem empty_poll_factor_counterexample:
  "fst (CalculateOptimalInterval cvt_indefinite (NewPollingOptimizer DefaultPollConfig)
          False 0 (Some [])) = 360000000000
   \<and> spec_empty_poll_interval cvt_indefinite (NewPollingOptimizer DefaultPollConfig)
       = 450000000000"
proof -
  have "fst (CalculateOptimalInterval cvt_indefinite (NewPollingOptimizer DefaultPollConfig)
          False 0 (Some [])) = 360000000000"
    by (simp add: CalculateOptimalInterval_def calculateAdaptiveInterval_def
          countJobsInFolder_def poll_eval f64_eval)
  then show ?thesis by (simp add: default_spec_more)
qed

text \<open>
  C7 amended. In the adaptive regime (adaptive polling on, the to-do folder unreadable
  or holding at most \<open>RemainingJobsThreshold\<close> job files, no jobs in the last poll,
  fewer than 3 consecutive empty polls) and with the minimum interval at most the
  maximum, the next interval is the current interval times the constant 1.2 (a
  \<open>float64\<close> product truncated to an integer), clamped to the minimum and maximum
  intervals, and it is stored as the new current interval.  The configured
  \<open>Factor\<close> and \<open>MaxEmptyPolls\<close> are not read.
\<close>

theorem empty_poll_multiplies_by_1_2:
  assumes "Adaptive (config po)"
    and "\<not> hasJobs"
    and "sint (consecutiveEmptyPolls po) < 3"
    and "\<forall>n. countJobsInFolder todo = Some n
           \<longrightarrow> sint n \<le> sint (RemainingJobsThreshold (config po))"
    and "sint (GetMinPollInterval (config po)) \<le> sint (GetMaxPollInterval (config po))"
  shows "CalculateOptimalInterval impl po hasJobs remaining todo =
     (let more = empty_poll_more impl po;
          next = (if sint (GetMaxPollInterval (config po)) < sint more
                  then GetMaxPollInterval (config po)
                  else if sint more < sint (GetMinPollInterval (config po))
                  then GetMinPollInterval (config po) else more)
      in (next, po\<lparr>currentInterval := next\<rparr>))"
  using assms
  by (cases "countJobsInFolder todo")
     (auto simp: CalculateOptimalInterval_def calculateAdaptiveInterval_def
        empty_poll_more_def Let_def)

theorem empty_poll_multiplies_by_1_2_witness:
  "Adaptive (config (NewPollingOptimizer DefaultPollConfig))
   \<and> sint (consecutiveEmptyPolls (NewPollingOptimizer DefaultPollConfig)) < 3
   \<and> countJobsInFolder (Some [(''a.job'', False)]) = Some 1
   \<and> empty_poll_more cvt_indefinite (NewPollingOptimizer DefaultPollConfig) = 360000000000
   \<and> fst (CalculateOptimalInterval cvt_indefinite (NewPollingOptimizer DefaultPollConfig)
          False 0 (Some [(''a.job'', False)])) = 360000000000"
proof -
  let ?po = "NewPollingOptimizer DefaultPollConfig"
  let ?todo = "Some [(''a.job'', False)]"
  have a: "Adaptive (config ?po)" by (simp add: poll_eval)
  have e: "sint (consecutiveEmptyPolls ?po) < 3" by (simp add: poll_eval)
  have t: "\<forall>n. countJobsInFolder ?todo = Some n
           \<longrightarrow> sint n \<le> sint (RemainingJobsThreshold (config ?po))"
    unfolding default_count by (simp add: poll_eval)
  have m: "sint (GetMinPollInterval (config ?po)) \<le> sint (GetMaxPollInterval (config ?po))"
    by (simp add: poll_eval)
  have f: "\<not> False" by simp
  note r = empty_poll_multiplies_by_1_2 [OF a f e t m, of cvt_indefinite 0]
  have x: "sint (GetMaxPollInterval (config ?po)) = 1800000000000"
    and n: "sint (GetMinPollInterval (config ?po)) = 300000000000"
    by (simp_all add: poll_eval)
  have "fst (CalculateOptimalInterval cvt_indefinite ?po False 0 ?todo) = 360000000000"
    unfolding r by (simp add: default_more x n)
  with a e default_count default_more show ?thesis by blast
qed

section \<open>Properties of the parameter-optimization watcher\<close>

lemma processOptFile_error: "opt_error (processOptFile w fs f) = opt_error fs"
  by (simp add: processOptFile_def MoveOptFile_def split: option.splits)

lemma foldl_processOptFile_error:
  "opt_error (foldl (processOptFile w) fs files) = opt_error fs"
  by (induction files arbitrary: fs) (simp_all add: processOptFile_error)

text \<open>No tick of the watcher puts anything into the error folder.\<close>

lemma processOptFiles_error: "opt_error (processOptFiles w fs) = opt_error fs"
  by (simp add: processOptFiles_def foldl_processOptFile_error split: option.splits)

lemma processOptFile_failed_stays:
  assumes "uploadOptFile w f \<noteq> None" and "e \<in> set (opt_in fs)" and "fst e = f"
  shows "e \<in> set (opt_in (processOptFile w fs g))"
proof (cases "g = f")
  case True
  with assms show ?thesis by (auto simp: processOptFile_def)
next
  case False
  with assms show ?thesis
    by (auto simp: processOptFile_def MoveOptFile_def split: option.splits if_splits)
qed

lemma foldl_processOptFile_failed_stays:
  assumes "uploadOptFile w f \<noteq> None" and "fst e = f"
  shows "e \<in> set (opt_in fs) \<Longrightarrow> e \<in> set (opt_in (foldl (processOptFile w) fs files))"
proof (induction files arbitrary: fs)
  case Nil
  then show ?case by simp
next
  case (Cons g files)
  from processOptFile_failed_stays [OF assms(1) Cons.prems assms(2)]
  have "e \<in> set (opt_in (processOptFile w fs g))" .
  from Cons.IH [OF this] show ?case by simp
qed

text \<open>A file whose upload fails is still in \<open>opt/in\<close> after the tick.\<close>

lemma processOptFiles_failed_stays:
  assumes "uploadOptFile w f \<noteq> None" and "e \<in> set (opt_in fs)" and "fst e = f"
  shows "e \<in> set (opt_in (processOptFiles w fs))"
  using foldl_processOptFile_failed_stays [OF assms(1) assms(3) assms(2)] assms(2)
  by (simp add: processOptFiles_def split: option.splits)

lemma sample_opt_name_ext: "Ext ''j1_@ES_60_WFO_Results.opt'' = ''.opt''"
  by (simp add: Ext_def is_path_separator_def)

lemma sample_opt_name_metadata:
  "extractMetadata ''j1_@ES_60_WFO_Results.opt'' = Inr (''j1'', ''@ES'', ''60'')"
  by (simp add: extractMetadata_def sample_opt_name_ext TrimSuffix_def suffix_def
        HasPrefix_def)

text \<open>
  C8, the code at the failing input: one result file in \<open>opt/in\<close>, a readable
  folder, a rename that would succeed, and an upload that fails.  After the tick the
  file is still in \<open>opt/in\<close> and \<open>opt/error\<close> is empty, where the claim has the file
  moved to \<open>opt/error\<close>.  When the upload succeeds the file moves to \<open>opt/done\<close>.
\<close>

theorem failed_opt_upload_stays_in_place:
  "processOptFiles
     \<lparr> readdir_ok = True, upload_ok = (\<lambda>f. False), rename_ok = (\<lambda>f. True) \<rparr>
     \<lparr> opt_in = [(''j1_@ES_60_WFO_Results.opt'', False)], opt_done = [], opt_error = [] \<rparr>
   = \<lparr> opt_in = [(''j1_@ES_60_WFO_Results.opt'', False)], opt_done = [], opt_error = [] \<rparr>
   \<and> processOptFiles
     \<lparr> readdir_ok = True, upload_ok = (\<lambda>f. True), rename_ok = (\<lambda>f. True) \<rparr>
     \<lparr> opt_in = [(''j1_@ES_60_WFO_Results.opt'', False)], opt_done = [], opt_error = [] \<rparr>
   = \<lparr> opt_in = [], opt_done = [''j1_@ES_60_WFO_Results.opt''], opt_error = [] \<rparr>"
  by (simp add: processOptFiles_def GetOptFiles_def processOptFile_def uploadOptFile_def
        MoveOptFile_def sample_opt_name_ext sample_opt_name_metadata)

section \<open>Properties of the walk-forward check\<close>

lemma sample_opt_table_fields:
  "parseCSVWithJSONFields sample_opt_table =
     [[''run'', ''parameters_json'', ''is_start_date''],
      [''1'', ''{'' @ [CHR 0x22] @ ''a'' @ [CHR 0x22] @ '':10,'' @ [CHR 0x22] @ ''b''
          @ [CHR 0x22] @ '':20}'', ''2007-01-01'']]"
  by (simp add: parseCSVWithJSONFields_def sample_opt_table_def parseCSVLineWithJSON_def
        TrimSpace_def space_runes_def)

lemma sample_opt_table_rows:
  "parseCSVContent sample_opt_table ''WFO'' =
     ([\<lparr> Run = 1,
         ParametersJSON = ''{'' @ [CHR 0x22] @ ''a'' @ [CHR 0x22] @ '':10,'' @ [CHR 0x22]
           @ ''b'' @ [CHR 0x22] @ '':20}'',
         ISStartDate = ''2007-01-01'', ISEndDate = [], OSStartDate = [], OSEndDate = [] \<rparr>],
      True)"
  by (simp add: parseCSVContent_def parseCSVRecords_def sample_opt_table_fields
        column_index_def parseRow_def date_field_def List.map_filter_def
        TrimSpace_def space_runes_def lower_byte_def atoi_digits_def is_digit_def
        digits_val_def digit_val_def upt_rec)

text \<open>With an unknown task type the check never reaches the table.\<close>

lemma unknown_task_type_not_walk_forward:
  "checkAndTriggerCombinedWFO None (Some csvContent) = NotWalkForward"
  by (simp add: checkAndTriggerCombinedWFO_def parseCSVContent_def)

text \<open>
  C9, the code at the failing input: a table with a \<open>run\<close> and a
  \<open>parameters_json\<close> column and one valid row.  With the job record missing the
  check answers "not walk-forward"; the same table under the task type \<open>WFO\<close>
  gives the second pass with that row.
\<close>

theorem unknown_task_type_short_circuits:
  "checkAndTriggerCombinedWFO None (Some sample_opt_table) = NotWalkForward
   \<and> checkAndTriggerCombinedWFO (Some ''WFO'') (Some sample_opt_table) =
       SecondPass [\<lparr> Run = 1,
         ParametersJSON = ''{'' @ [CHR 0x22] @ ''a'' @ [CHR 0x22] @ '':10,'' @ [CHR 0x22]
           @ ''b'' @ [CHR 0x22] @ '':20}'',
         ISStartDate = ''2007-01-01'', ISEndDate = [], OSStartDate = [], OSEndDate = [] \<rparr>]"
  by (simp add: checkAndTriggerCombinedWFO_def sample_opt_table_rows)
     (simp add: parseCSVContent_def)

end
